theory Spec2Isabelle
  imports Main "HOL-Library.Multiset" "HOL-Library.Word" "HOL-Library.List_Lexorder" "HOL-Library.Char_ord"
begin

unbundle bit_operations_syntax

section \<open>SHA-256 (hashlib.sha256), after FIPS 180-4\<close>

text \<open>
  \<^verbatim>\<open>license_manager.py\<close> hashes with \<^verbatim>\<open>hashlib.sha256(...).hexdigest()\<close>. The digest is
  computed here on 32-bit words, so that the checksum of a record is a value of the model
  and not a parameter of it.
\<close>

type_synonym w32 = "32 word"

type_synonym byte = "8 word"

definition rotr :: "nat \<Rightarrow> w32 \<Rightarrow> w32" where
  "rotr n x = (drop_bit n x) OR (push_bit (32 - n) x)"

definition Ch :: "w32 \<Rightarrow> w32 \<Rightarrow> w32 \<Rightarrow> w32" where
  "Ch x y z = (x AND y) XOR (NOT x AND z)"

definition Maj :: "w32 \<Rightarrow> w32 \<Rightarrow> w32 \<Rightarrow> w32" where
  "Maj x y z = (x AND y) XOR (x AND z) XOR (y AND z)"

definition Sigma0 :: "w32 \<Rightarrow> w32" where
  "Sigma0 x = rotr 2 x XOR rotr 13 x XOR rotr 22 x"

definition Sigma1 :: "w32 \<Rightarrow> w32" where
  "Sigma1 x = rotr 6 x XOR rotr 11 x XOR rotr 25 x"

definition sigma0 :: "w32 \<Rightarrow> w32" where
  "sigma0 x = rotr 7 x XOR rotr 18 x XOR drop_bit 3 x"

definition sigma1 :: "w32 \<Rightarrow> w32" where
  "sigma1 x = rotr 17 x XOR rotr 19 x XOR drop_bit 10 x"

definition K256 :: "w32 list" where
  "K256 = [
    0x428A2F98, 0x71374491, 0xB5C0FBCF, 0xE9B5DBA5, 0x3956C25B, 0x59F111F1, 0x923F82A4, 0xAB1C5ED5,
    0xD807AA98, 0x12835B01, 0x243185BE, 0x550C7DC3, 0x72BE5D74, 0x80DEB1FE, 0x9BDC06A7, 0xC19BF174,
    0xE49B69C1, 0xEFBE4786, 0x0FC19DC6, 0x240CA1CC, 0x2DE92C6F, 0x4A7484AA, 0x5CB0A9DC, 0x76F988DA,
    0x983E5152, 0xA831C66D, 0xB00327C8, 0xBF597FC7, 0xC6E00BF3, 0xD5A79147, 0x06CA6351, 0x14292967,
    0x27B70A85, 0x2E1B2138, 0x4D2C6DFC, 0x53380D13, 0x650A7354, 0x766A0ABB, 0x81C2C92E, 0x92722C85,
    0xA2BFE8A1, 0xA81A664B, 0xC24B8B70, 0xC76C51A3, 0xD192E819, 0xD6990624, 0xF40E3585, 0x106AA070,
    0x19A4C116, 0x1E376C08, 0x2748774C, 0x34B0BCB5, 0x391C0CB3, 0x4ED8AA4A, 0x5B9CCA4F, 0x682E6FF3,
    0x748F82EE, 0x78A5636F, 0x84C87814, 0x8CC70208, 0x90BEFFFA, 0xA4506CEB, 0xBEF9A3F7, 0xC67178F2]"

definition H256 :: "w32 list" where
  "H256 = [0x6A09E667, 0xBB67AE85, 0x3C6EF372, 0xA54FF53A,
           0x510E527F, 0x9B05688C, 0x1F83D9AB, 0x5BE0CD19]"

text \<open>Padding: the byte 0x80, zero bytes up to 56 modulo 64, then the length in bits as
  eight big-endian bytes.\<close>

definition length_bytes :: "nat \<Rightarrow> byte list" where
  "length_bytes n =
     (let bits = (of_nat n :: 64 word) * 8
      in map (\<lambda>i. ucast (drop_bit (8 * (7 - i)) bits)) [0..<8])"

definition sha_pad :: "byte list \<Rightarrow> byte list" where
  "sha_pad m = m @ [0x80] @ replicate ((119 - length m mod 64) mod 64) 0
                 @ length_bytes (length m)"

fun be_words :: "byte list \<Rightarrow> w32 list" where
  "be_words (a # b # c # d # bs) =
     (push_bit 24 (ucast a) OR push_bit 16 (ucast b) OR push_bit 8 (ucast c) OR ucast d)
       # be_words bs"
| "be_words _ = []"

fun blocks :: "w32 list \<Rightarrow> w32 list list" where
  "blocks [] = []"
| "blocks ws = take 16 ws # blocks (drop 16 ws)"

text \<open>The message schedule, most recent word first: the head of the list is W[t-1].\<close>

fun schedule :: "nat \<Rightarrow> w32 list \<Rightarrow> w32 list" where
  "schedule 0 ws = ws"
| "schedule (Suc n) ws =
     schedule n ((sigma1 (ws ! 1) + ws ! 6 + sigma0 (ws ! 14) + ws ! 15) # ws)"

fun round256 :: "w32 list \<Rightarrow> (w32 \<times> w32) \<Rightarrow> w32 list" where
  "round256 [a, b, c, d, e, f, g, h] (k, w) =
     (let t1 = h + Sigma1 e + Ch e f g + k + w;
          t2 = Sigma0 a + Maj a b c
      in [t1 + t2, a, b, c, d + t1, e, f, g])"
| "round256 s _ = s"

definition compress :: "w32 list \<Rightarrow> w32 list \<Rightarrow> w32 list" where
  "compress hs blk =
     map2 (+) hs (foldl round256 hs (zip K256 (rev (schedule 48 (rev blk)))))"

definition sha256 :: "byte list \<Rightarrow> w32 list" where
  "sha256 m = foldl compress H256 (blocks (be_words (sha_pad m)))"

definition hex_digit :: "w32 \<Rightarrow> char" where
  "hex_digit w = ''0123456789abcdef'' ! unat (w AND 15)"

definition hex_word :: "w32 \<Rightarrow> string" where
  "hex_word w = map (\<lambda>i. hex_digit (drop_bit (4 * (7 - i)) w)) [0..<8]"

definition hexdigest :: "w32 list \<Rightarrow> string" where
  "hexdigest ws = concat (map hex_word ws)"

text \<open>\<^verbatim>\<open>str.encode()\<close> is UTF-8: a character below U+0080 is one byte, a character from
  U+0080 to U+00FF is two.\<close>

definition encode_char :: "char \<Rightarrow> byte list" where
  "encode_char c =
     (if c < CHR 0x80 then [of_char c]
      else [0xC0 OR drop_bit 6 (of_char c), 0x80 OR (of_char c AND 0x3F)])"

definition encode :: "string \<Rightarrow> byte list" where
  "encode s = concat (map encode_char s)"

definition sha256_hex :: "string \<Rightarrow> string" where
  "sha256_hex s = hexdigest (sha256 (encode s))"

section \<open>JSON values and json.dumps\<close>

text \<open>
  What \<^verbatim>\<open>json.load\<close> returns: \<^verbatim>\<open>None\<close>, a bool, an int, a str, a list or a dict with
  string keys. A dict is an association list in insertion order, with distinct keys.
  Strings hold characters below U+0100; numbers are integers (a float is not a value of
  this model).
\<close>

datatype json =
    JNull
  | JBool bool
  | JInt int
  | JStr string
  | JList "json list"
  | JDict "(string \<times> json) list"

type_synonym pydict = "(string \<times> json) list"

text \<open>\<^verbatim>\<open>d.get(k, default)\<close> and \<^verbatim>\<open>d[k] = v\<close>: an existing key keeps its place, a new one
  goes last.\<close>

definition dict_get :: "pydict \<Rightarrow> string \<Rightarrow> json \<Rightarrow> json" where
  "dict_get d k dflt = (case map_of d k of None \<Rightarrow> dflt | Some v \<Rightarrow> v)"

fun dict_set :: "pydict \<Rightarrow> string \<Rightarrow> json \<Rightarrow> pydict" where
  "dict_set [] k v = [(k, v)]"
| "dict_set ((k', v') # d) k v =
     (if k' = k then (k, v) # d else (k', v') # dict_set d k v)"

text \<open>Python's truth value of a JSON value, as \<^verbatim>\<open>if not x\<close> and \<^verbatim>\<open>if x\<close> read it.\<close>

fun truthy :: "json \<Rightarrow> bool" where
  "truthy JNull = False"
| "truthy (JBool b) = b"
| "truthy (JInt i) = (i \<noteq> 0)"
| "truthy (JStr s) = (s \<noteq> [])"
| "truthy (JList xs) = (xs \<noteq> [])"
| "truthy (JDict d) = (d \<noteq> [])"

fun join :: "string \<Rightarrow> string list \<Rightarrow> string" where
  "join sep [] = []"
| "join sep [x] = x"
| "join sep (x # y # ys) = x @ sep @ join sep (y # ys)"

definition digit_char :: "nat \<Rightarrow> char" where
  "digit_char n = ''0123456789'' ! (n mod 10)"

fun nat_repr :: "nat \<Rightarrow> string" where
  "nat_repr n = (if n < 10 then [digit_char n] else nat_repr (n div 10) @ [digit_char n])"

definition int_repr :: "int \<Rightarrow> string" where
  "int_repr i = (if i < 0 then CHR ''-'' # nat_repr (nat (- i)) else nat_repr (nat i))"

text \<open>\<^verbatim>\<open>ensure_ascii=True\<close>: quote and backslash are escaped, the control characters have
  their short forms, and every other character outside 0x20..0x7E is written
  \<^verbatim>\<open>\uXXXX\<close>.\<close>

definition hex4 :: "char \<Rightarrow> string" where
  "hex4 c = ''00'' @ [hex_digit (drop_bit 4 (of_char c)), hex_digit (of_char c)]"

definition escape_char :: "char \<Rightarrow> string" where
  "escape_char c =
     (if c = CHR 0x22 then [CHR 0x5C, CHR 0x22]
      else if c = CHR 0x5C then [CHR 0x5C, CHR 0x5C]
      else if c = CHR 0x0A then [CHR 0x5C, CHR ''n'']
      else if c = CHR 0x0D then [CHR 0x5C, CHR ''r'']
      else if c = CHR 0x09 then [CHR 0x5C, CHR ''t'']
      else if c = CHR 0x08 then [CHR 0x5C, CHR ''b'']
      else if c = CHR 0x0C then [CHR 0x5C, CHR ''f'']
      else if CHR 0x20 \<le> c \<and> c \<le> CHR 0x7E then [c]
      else [CHR 0x5C, CHR ''u''] @ hex4 c)"

definition quote :: "string \<Rightarrow> string" where
  "quote s = [CHR 0x22] @ concat (map escape_char s) @ [CHR 0x22]"

text \<open>\<^verbatim>\<open>json.dumps(obj, sort_keys=True)\<close>: the items of every dict are written in the order
  of their keys, separated by \<^verbatim>\<open>", "\<close> and \<^verbatim>\<open>": "\<close>.\<close>

fun json_dumps :: "json \<Rightarrow> string" where
  "json_dumps JNull = ''null''"
| "json_dumps (JBool b) = (if b then ''true'' else ''false'')"
| "json_dumps (JInt i) = int_repr i"
| "json_dumps (JStr s) = quote s"
| "json_dumps (JList xs) = ''['' @ join '', '' (map json_dumps xs) @ '']''"
| "json_dumps (JDict kvs) =
     ''{'' @ join '', ''
        (map (\<lambda>kv. quote (fst kv) @ '': '' @ json_dumps (snd kv)) (sort_key fst kvs)) @ ''}''"

section \<open>The world of the license manager\<close>

text \<open>
  A file of the file system, as \<^verbatim>\<open>open\<close> and \<^verbatim>\<open>json.load\<close> see it: absent; present but
  raising \<^verbatim>\<open>IOError\<close> when opened or read; present with a text that is not JSON
  (\<^verbatim>\<open>json.JSONDecodeError\<close>, the empty file included); or present with the text of a
  JSON value. \<^verbatim>\<open>json.dump\<close> followed by \<^verbatim>\<open>json.load\<close> gives the value back, so a
  written file holds the value written. A file whose bytes cannot be decoded as text is
  not a file of this model.
\<close>

datatype disk_file = Missing | Unreadable | Malformed | Content json

datatype exn = IOError | JSONDecodeError | ValueError | TypeError | AttributeError

datatype level = DEBUG | INFO | WARNING | ERROR

record world =
  files :: "string \<Rightarrow> disk_file"
  log_records :: "(level \<times> string) list"

definition logger :: "level \<Rightarrow> string \<Rightarrow> world \<Rightarrow> world" where
  "logger lvl msg w = w\<lparr>log_records := log_records w @ [(lvl, msg)]\<rparr>"

definition write_file :: "string \<Rightarrow> disk_file \<Rightarrow> world \<Rightarrow> world" where
  "write_file path f w = w\<lparr>files := (files w)(path := f)\<rparr>"

text \<open>\<^verbatim>\<open>with open(path, 'r') as f: json.load(f)\<close>\<close>

fun json_load :: "disk_file \<Rightarrow> exn + json" where
  "json_load Missing = Inl IOError"
| "json_load Unreadable = Inl IOError"
| "json_load Malformed = Inl JSONDecodeError"
| "json_load (Content j) = Inr j"

text \<open>What happens when \<^verbatim>\<open>_save_data\<close> writes: nothing fails; \<^verbatim>\<open>mkdir\<close> raises; \<^verbatim>\<open>open\<close>
  raises (the file is untouched); or \<^verbatim>\<open>json.dump\<close> raises part-way, leaving the file
  in the state given.\<close>

datatype io = IoOk | MkdirFails | OpenFails | WriteFails disk_file

text \<open>The object: \<^verbatim>\<open>self.license_file\<close>, \<^verbatim>\<open>self.license_keys_file\<close>, \<^verbatim>\<open>self.data\<close> and
  \<^verbatim>\<open>self._license_keys_cache\<close>.\<close>

record manager =
  license_file :: string
  license_keys_file :: "string option"
  data :: pydict
  license_keys_cache :: "string set option"

definition LICENSE_TYPE_STRIPE :: string where
  "LICENSE_TYPE_STRIPE = ''stripe_payment''"

definition LICENSE_TYPE_KEY :: string where
  "LICENSE_TYPE_KEY = ''license_key''"

definition LICENSE_TYPE_PROMO :: string where
  "LICENSE_TYPE_PROMO = ''promo_code''"

section \<open>The entitlement store: checksum, load, save\<close>

definition default_data :: pydict where
  "default_data =
     [(''licensed'', JBool False),
      (''license_type'', JNull),
      (''stripe_session_id'', JNull),
      (''stripe_payment_intent'', JNull),
      (''license_key'', JNull),
      (''activated_at'', JNull),
      (''email'', JNull),
      (''checksum'', JNull)]"

definition calculate_checksum :: "pydict \<Rightarrow> string" where
  "calculate_checksum d =
     (let data_copy = filter (\<lambda>kv. fst kv \<noteq> ''checksum'') d;
          data_str = json_dumps (JDict data_copy)
      in take 16 (sha256_hex data_str))"

text \<open>\<^verbatim>\<open>data.get("checksum")\<close> raises \<^verbatim>\<open>AttributeError\<close> when the loaded value is not a
  dict; the comparison \<^verbatim>\<open>stored_checksum == calculated\<close> holds only for a string.\<close>

fun verify_checksum :: "json \<Rightarrow> exn + bool" where
  "verify_checksum (JDict d) =
     (let stored_checksum = dict_get d ''checksum'' JNull
      in if \<not> truthy stored_checksum then Inr True
         else Inr (stored_checksum = JStr (calculate_checksum d)))"
| "verify_checksum _ = Inl AttributeError"

definition load_data :: "string \<Rightarrow> world \<Rightarrow> (exn + pydict) \<times> world" where
  "load_data path w =
     (if files w path \<noteq> Missing then
        (case json_load (files w path) of
           Inr j \<Rightarrow>
             (case verify_checksum j of
                Inl e \<Rightarrow> (Inl e, w)
              | Inr ok \<Rightarrow>
                  if \<not> ok then
                    (Inr default_data,
                     logger WARNING ''License file checksum mismatch - possible tampering'' w)
                  else
                    (case j of
                       JDict d \<Rightarrow> (Inr d, logger DEBUG ''Loaded license data'' w)
                     | _ \<Rightarrow> (Inl AttributeError, w)))
         | Inl e \<Rightarrow>
             if e = JSONDecodeError \<or> e = IOError then
               (Inr default_data, logger WARNING ''Failed to load license data'' w)
             else (Inl e, w))
      else (Inr default_data, w))"

text \<open>\<^verbatim>\<open>LicenseManager.__init__\<close>\<close>

definition init :: "string \<Rightarrow> string option \<Rightarrow> world \<Rightarrow> (exn + manager) \<times> world" where
  "init lf lkf w =
     (case load_data lf w of
        (Inl e, w') \<Rightarrow> (Inl e, w')
      | (Inr d, w') \<Rightarrow>
          (Inr \<lparr>license_file = lf, license_keys_file = lkf, data = d,
                license_keys_cache = None\<rparr>, w'))"

text \<open>The body of the \<^verbatim>\<open>try\<close> in \<^verbatim>\<open>_save_data\<close>, and the function with its
  \<^verbatim>\<open>except IOError\<close>.\<close>

fun save_data_try :: "io \<Rightarrow> manager \<times> world \<Rightarrow> (exn + unit) \<times> manager \<times> world" where
  "save_data_try MkdirFails (m, w) = (Inl IOError, m, w)"
| "save_data_try io (m, w) =
     (let m' = m\<lparr>data := dict_set (data m) ''checksum'' (JStr (calculate_checksum (data m)))\<rparr>
      in case io of
           OpenFails \<Rightarrow> (Inl IOError, m', w)
         | WriteFails f \<Rightarrow> (Inl IOError, m', write_file (license_file m) f w)
         | _ \<Rightarrow> (Inr (), m',
                  logger DEBUG ''Saved license data''
                    (write_file (license_file m) (Content (JDict (data m'))) w)))"

definition save_data :: "io \<Rightarrow> manager \<times> world \<Rightarrow> (exn + unit) \<times> manager \<times> world" where
  "save_data io s =
     (case save_data_try io s of
        (Inl e, m', w') \<Rightarrow>
          if e = IOError then (Inr (), m', logger ERROR ''Failed to save license data'' w')
          else (Inl e, m', w')
      | (Inr u, m', w') \<Rightarrow> (Inr u, m', w'))"

section \<open>Queries\<close>

definition is_licensed :: "manager \<Rightarrow> json" where
  "is_licensed m = dict_get (data m) ''licensed'' (JBool False)"

definition get_license_type :: "manager \<Rightarrow> json" where
  "get_license_type m = dict_get (data m) ''license_type'' JNull"

definition get_license_info :: "manager \<Rightarrow> pydict" where
  "get_license_info m =
     [(''licensed'', dict_get (data m) ''licensed'' (JBool False)),
      (''type'', dict_get (data m) ''license_type'' JNull),
      (''activated_at'', dict_get (data m) ''activated_at'' JNull),
      (''email'', dict_get (data m) ''email'' JNull)]"

text \<open>\<^verbatim>\<open>datetime.fromisoformat\<close> is a parameter: \<open>None\<close> is its \<^verbatim>\<open>ValueError\<close>. Given
  anything but a string it raises \<^verbatim>\<open>TypeError\<close>, which \<^verbatim>\<open>except ValueError\<close> does not
  catch.\<close>

definition get_activation_date ::
  "(string \<Rightarrow> 'dt option) \<Rightarrow> manager \<Rightarrow> exn + 'dt option" where
  "get_activation_date fromisoformat m =
     (let activated_at = dict_get (data m) ''activated_at'' JNull
      in if truthy activated_at then
           (case activated_at of
              JStr s \<Rightarrow> (case fromisoformat s of Some d \<Rightarrow> Inr (Some d) | None \<Rightarrow> Inr None)
            | _ \<Rightarrow> Inl TypeError)
         else Inr None)"

section \<open>Key validation\<close>

text \<open>
  \<^verbatim>\<open>str.strip\<close> and \<^verbatim>\<open>str.upper\<close> are methods of Python's \<^verbatim>\<open>str\<close>, Unicode-aware
  and not code of this repository: the manager takes them as parameters, and what is
  proved of it holds whatever they compute.
\<close>

record str_methods =
  str_strip :: "string \<Rightarrow> string"
  str_upper :: "string \<Rightarrow> string"

definition normalize_key :: "str_methods \<Rightarrow> string \<Rightarrow> string" where
  "normalize_key py key = str_upper py (str_strip py key)"

definition hash_key :: "str_methods \<Rightarrow> string \<Rightarrow> string" where
  "hash_key py key = sha256_hex (normalize_key py key)"

text \<open>
  The two methods on strings of characters below U+0100, for the examples. The
  characters that \<^verbatim>\<open>str.isspace\<close> accepts there are 09-0D, 1C-1F, 20, 85 and A0.
  \<^verbatim>\<open>str.upper\<close> works character by character: it moves a-z, E0-F6 and F8-FE down by
  0x20 and turns DF into \<^verbatim>\<open>SS\<close>. The upper-case forms of B5 and FF are U+039C and
  U+0178, which are not characters of this type: \<open>latin1_upper\<close> leaves these two as they
  are, and is \<^verbatim>\<open>str.upper\<close> on every string that holds neither.
\<close>

definition latin1_isspace :: "char \<Rightarrow> bool" where
  "latin1_isspace c =
     (c \<in> set [CHR 0x09, CHR 0x0A, CHR 0x0B, CHR 0x0C, CHR 0x0D,
               CHR 0x1C, CHR 0x1D, CHR 0x1E, CHR 0x1F, CHR 0x20, CHR 0x85, CHR 0xA0])"

definition latin1_strip :: "string \<Rightarrow> string" where
  "latin1_strip s = rev (dropWhile latin1_isspace (rev (dropWhile latin1_isspace s)))"

definition latin1_upper_char :: "char \<Rightarrow> string" where
  "latin1_upper_char c =
     (if (CHR ''a'' \<le> c \<and> c \<le> CHR ''z'') \<or> (CHR 0xE0 \<le> c \<and> c \<le> CHR 0xF6)
         \<or> (CHR 0xF8 \<le> c \<and> c \<le> CHR 0xFE)
      then [char_of (of_char c - (32 :: nat))]
      else if c = CHR 0xDF then ''SS''
      else [c])"

definition latin1_upper :: "string \<Rightarrow> string" where
  "latin1_upper s = concat (map latin1_upper_char s)"

definition latin1 :: str_methods where
  "latin1 = \<lparr>str_strip = latin1_strip, str_upper = latin1_upper\<rparr>"

text \<open>What \<^verbatim>\<open>for key in x\<close> runs over: the items of a list, the characters of a string,
  the keys of a dict; anything else is not iterable.\<close>

fun iter_json :: "json \<Rightarrow> exn + json list" where
  "iter_json (JList xs) = Inr xs"
| "iter_json (JStr s) = Inr (map (\<lambda>c. JStr [c]) s)"
| "iter_json (JDict d) = Inr (map (\<lambda>kv. JStr (fst kv)) d)"
| "iter_json _ = Inl TypeError"

text \<open>The loop \<^verbatim>\<open>cache.add(key.strip().upper())\<close>: an item that is not a string has no
  \<^verbatim>\<open>strip\<close>, and the keys added before it stay in the cache.\<close>

fun add_keys :: "str_methods \<Rightarrow> json list \<Rightarrow> string set \<Rightarrow> exn option \<times> string set" where
  "add_keys py [] c = (None, c)"
| "add_keys py (JStr s # ks) c = add_keys py ks (insert (normalize_key py s) c)"
| "add_keys py (_ # ks) c = (Some AttributeError, c)"

text \<open>The body of the \<^verbatim>\<open>with\<close> block of \<^verbatim>\<open>_load_license_keys\<close>, once the file is
  parsed.\<close>

definition read_keys :: "str_methods \<Rightarrow> json \<Rightarrow> string set \<Rightarrow> exn option \<times> string set" where
  "read_keys py j c =
     (case j of
        JDict d \<Rightarrow>
          (case map_of d ''keys'' of
             Some ks \<Rightarrow>
               (case iter_json ks of Inl e \<Rightarrow> (Some e, c) | Inr xs \<Rightarrow> add_keys py xs c)
           | None \<Rightarrow> (None, c))
      | JList xs \<Rightarrow> add_keys py xs c
      | _ \<Rightarrow> (None, c))"

definition load_license_keys ::
  "str_methods \<Rightarrow> manager \<times> world \<Rightarrow> (exn + string set) \<times> manager \<times> world" where
  "load_license_keys py s =
     (case s of (m, w) \<Rightarrow>
        (case license_keys_cache m of
           Some c \<Rightarrow> (Inr c, m, w)
         | None \<Rightarrow>
             (case license_keys_file m of
                None \<Rightarrow> (Inr {}, m\<lparr>license_keys_cache := Some {}\<rparr>, w)
              | Some p \<Rightarrow>
                  if files w p = Missing then (Inr {}, m\<lparr>license_keys_cache := Some {}\<rparr>, w)
                  else
                    (case json_load (files w p) of
                       Inl e \<Rightarrow>
                         if e = JSONDecodeError \<or> e = IOError then
                           (Inr {}, m\<lparr>license_keys_cache := Some {}\<rparr>,
                            logger WARNING ''Failed to load license keys'' w)
                         else (Inl e, m\<lparr>license_keys_cache := Some {}\<rparr>, w)
                     | Inr j \<Rightarrow>
                         (case read_keys py j {} of
                            (Some e, c) \<Rightarrow> (Inl e, m\<lparr>license_keys_cache := Some c\<rparr>, w)
                          | (None, c) \<Rightarrow>
                              (Inr c, m\<lparr>license_keys_cache := Some c\<rparr>,
                               logger DEBUG ''Loaded valid license keys'' w))))))"

definition validate_license_key ::
  "str_methods \<Rightarrow> string \<Rightarrow> manager \<times> world \<Rightarrow> (exn + bool) \<times> manager \<times> world" where
  "validate_license_key py key s =
     (let normalized_key = normalize_key py key
      in case load_license_keys py s of
           (Inl e, m', w') \<Rightarrow> (Inl e, m', w')
         | (Inr valid_keys, m', w') \<Rightarrow> (Inr (normalized_key \<in> valid_keys), m', w'))"

section \<open>The activation engine\<close>

text \<open>An \<^verbatim>\<open>Optional[str]\<close> argument as the value stored in the record.\<close>

fun opt_str :: "string option \<Rightarrow> json" where
  "opt_str None = JNull"
| "opt_str (Some s) = JStr s"

text \<open>The three activations take what \<^verbatim>\<open>datetime.now().isoformat()\<close> returns as \<open>now\<close>,
  and what the file system does to the write as \<open>io\<close>.\<close>

definition activate_with_stripe ::
  "io \<Rightarrow> string \<Rightarrow> string \<Rightarrow> string option \<Rightarrow> string option \<Rightarrow> manager \<times> world
     \<Rightarrow> (exn + bool) \<times> manager \<times> world" where
  "activate_with_stripe io now session_id payment_intent email s =
     (case s of (m, w) \<Rightarrow>
        (let m1 = m\<lparr>data :=
                    [(''licensed'', JBool True),
                     (''license_type'', JStr LICENSE_TYPE_STRIPE),
                     (''stripe_session_id'', JStr session_id),
                     (''stripe_payment_intent'', opt_str payment_intent),
                     (''license_key'', JNull),
                     (''activated_at'', JStr now),
                     (''email'', opt_str email),
                     (''checksum'', JNull)]\<rparr>
         in case save_data io (m1, w) of
              (Inl e, m2, w2) \<Rightarrow> (Inl e, m2, w2)
            | (Inr u, m2, w2) \<Rightarrow>
                (Inr True, m2, logger INFO ''License activated via Stripe payment'' w2)))"

definition activate_with_key ::
  "str_methods \<Rightarrow> io \<Rightarrow> string \<Rightarrow> string \<Rightarrow> manager \<times> world
     \<Rightarrow> (exn + bool) \<times> manager \<times> world" where
  "activate_with_key py io now license_key s =
     (case validate_license_key py license_key s of
        (Inl e, m0, w0) \<Rightarrow> (Inl e, m0, w0)
      | (Inr valid, m0, w0) \<Rightarrow>
          if \<not> valid then (Inr False, m0, logger WARNING ''Invalid license key attempted'' w0)
          else
            (let normalized_key = normalize_key py license_key;
                 m1 = m0\<lparr>data :=
                    [(''licensed'', JBool True),
                     (''license_type'', JStr LICENSE_TYPE_KEY),
                     (''stripe_session_id'', JNull),
                     (''stripe_payment_intent'', JNull),
                     (''license_key'', JStr normalized_key),
                     (''activated_at'', JStr now),
                     (''email'', JNull),
                     (''checksum'', JNull)]\<rparr>
             in case save_data io (m1, w0) of
                  (Inl e, m2, w2) \<Rightarrow> (Inl e, m2, w2)
                | (Inr u, m2, w2) \<Rightarrow>
                    (Inr True, m2, logger INFO ''License activated via license key'' w2)))"

definition activate_with_promo ::
  "io \<Rightarrow> string \<Rightarrow> string \<Rightarrow> string \<Rightarrow> string option \<Rightarrow> manager \<times> world
     \<Rightarrow> (exn + bool) \<times> manager \<times> world" where
  "activate_with_promo io now session_id promo_code email s =
     (case s of (m, w) \<Rightarrow>
        (let m1 = m\<lparr>data :=
                    [(''licensed'', JBool True),
                     (''license_type'', JStr LICENSE_TYPE_PROMO),
                     (''stripe_session_id'', JStr session_id),
                     (''stripe_payment_intent'', JNull),
                     (''license_key'', JStr promo_code),
                     (''activated_at'', JStr now),
                     (''email'', opt_str email),
                     (''checksum'', JNull)]\<rparr>
         in case save_data io (m1, w) of
              (Inl e, m2, w2) \<Rightarrow> (Inl e, m2, w2)
            | (Inr u, m2, w2) \<Rightarrow>
                (Inr True, m2, logger INFO ''License activated via promo code'' w2)))"

definition revoke_license ::
  "io \<Rightarrow> manager \<times> world \<Rightarrow> (exn + unit) \<times> manager \<times> world" where
  "revoke_license io s =
     (case s of (m, w) \<Rightarrow>
        (case save_data io (m\<lparr>data := default_data\<rparr>, w) of
           (Inl e, m2, w2) \<Rightarrow> (Inl e, m2, w2)
         | (Inr u, m2, w2) \<Rightarrow> (Inr (), m2, logger INFO ''License revoked'' w2)))"

section \<open>Example states\<close>

text \<open>A manager as \<open>init\<close> builds it when no license file exists, a world with no files,
  a manager holding a record as \<^verbatim>\<open>activate_with_key\<close> writes it, a manager holding the
  one-field record \<^verbatim>\<open>{"licensed": true}\<close>, and a world whose key file lists one key.\<close>

definition fresh_manager :: manager where
  "fresh_manager =
     \<lparr>license_file = ''license.json'', license_keys_file = Some ''keys.json'',
      data = default_data, license_keys_cache = None\<rparr>"

definition empty_world :: world where
  "empty_world = \<lparr>files = (\<lambda>p. Missing), log_records = []\<rparr>"

definition licensed_manager :: manager where
  "licensed_manager = fresh_manager\<lparr>data :=
     [(''licensed'', JBool True),
      (''license_type'', JStr ''license_key''),
      (''stripe_session_id'', JNull),
      (''stripe_payment_intent'', JNull),
      (''license_key'', JStr ''BD-AAAA-BBBB-CCCC-DDDD''),
      (''activated_at'', JStr ''2024-05-01T10:00:00''),
      (''email'', JNull),
      (''checksum'', JNull)]\<rparr>"

definition small_manager :: manager where
  "small_manager = fresh_manager\<lparr>data := [(''licensed'', JBool True)]\<rparr>"

definition keys_world :: world where
  "keys_world =
     write_file ''keys.json''
       (Content (JDict [(''keys'', JList [JStr ''BD-AAAA-BBBB-CCCC-DDDD''])])) empty_world"

section \<open>Basic facts\<close>

subsection \<open>Dictionaries\<close>

lemma filter_dict_set:
  "filter (\<lambda>kv. fst kv \<noteq> k) (dict_set d k v) = filter (\<lambda>kv. fst kv \<noteq> k) d"
  by (induction d) auto

lemma map_of_dict_set_same: "map_of (dict_set d k v) k = Some v"
  by (induction d) auto

lemma map_of_dict_set_other: "k' \<noteq> k \<Longrightarrow> map_of (dict_set d k v) k' = map_of d k'"
  by (induction d) auto

subsection \<open>The checksum is sixteen characters and ignores the checksum field\<close>

lemma calculate_checksum_dict_set:
  "calculate_checksum (dict_set d ''checksum'' v) = calculate_checksum d"
  by (simp add: calculate_checksum_def filter_dict_set)

lemma length_round256: "length s = 8 \<Longrightarrow> length (round256 s kw) = 8"
  by (cases "(s, kw)" rule: round256.cases) (auto simp: Let_def)

lemma length_foldl_round256: "length s = 8 \<Longrightarrow> length (foldl round256 s kws) = 8"
  by (induction kws arbitrary: s) (auto simp: length_round256)

lemma length_compress: "length hs = 8 \<Longrightarrow> length (compress hs blk) = 8"
  by (simp add: compress_def length_foldl_round256)

lemma length_foldl_compress: "length hs = 8 \<Longrightarrow> length (foldl compress hs bs) = 8"
  by (induction bs arbitrary: hs) (auto simp: length_compress)

lemma length_sha256: "length (sha256 m) = 8"
  by (simp add: sha256_def length_foldl_compress H256_def)

lemma length_hexdigest: "length (hexdigest ws) = 8 * length ws"
  by (induction ws) (auto simp: hexdigest_def hex_word_def)

lemma length_sha256_hex: "length (sha256_hex s) = 64"
  by (simp add: sha256_hex_def length_hexdigest length_sha256)

lemma length_calculate_checksum: "length (calculate_checksum d) = 16"
  by (simp add: calculate_checksum_def Let_def length_sha256_hex)

lemma calculate_checksum_nonempty: "calculate_checksum d \<noteq> []"
  using length_calculate_checksum [of d] by auto

lemma calculate_checksum_neq_short:
  "length s \<noteq> 16 \<Longrightarrow> JStr s \<noteq> JStr (calculate_checksum d)"
  using length_calculate_checksum [of d] by auto

text \<open>Two checksums computed through \<open>json_dumps\<close> and \<open>sha256_hex\<close>; they are the values
  \<^verbatim>\<open>hashlib.sha256(b'{"licensed": true}').hexdigest()[:16]\<close> and
  \<^verbatim>\<open>hashlib.sha256(b'{"licensed": false}').hexdigest()[:16]\<close>.\<close>

lemma checksum_licensed_true:
  "calculate_checksum [(''licensed'', JBool True)] = ''bb000d6a468744a3''"
  by code_simp

lemma checksum_licensed_false:
  "calculate_checksum [(''licensed'', JBool False)] = ''4465899babcebf0a''"
  by code_simp

text \<open>The checksum has finitely many values and there are infinitely many strings, so any
  family of records indexed by a string holds two records with one checksum.\<close>

lemma finite_strings_16: "finite {s :: string. length s = 16}"
  using finite_lists_length_eq [of "UNIV :: char set" 16] by simp

lemma checksum_collision:
  "\<exists>e1 e2. e1 \<noteq> e2 \<and> calculate_checksum (f e1) = calculate_checksum (f (e2 :: string))"
proof -
  let ?g = "\<lambda>e. calculate_checksum (f e)"
  have "range ?g \<subseteq> {s. length s = 16}"
    by (auto simp: length_calculate_checksum)
  then have fin: "finite (range ?g)"
    using finite_strings_16 by (rule finite_subset)
  have "\<not> inj ?g"
  proof
    assume "inj ?g"
    with fin have "finite (UNIV :: string set)"
      by (rule finite_imageD)
    then show False
      using infinite_UNIV_listI by blast
  qed
  then show ?thesis
    unfolding inj_on_def by blast
qed

subsection \<open>Load and save, step by step\<close>

lemma files_logger [simp]: "files (logger l msg w) = files w"
  by (simp add: logger_def)

lemma files_write_file [simp]: "files (write_file p f w) = (files w)(p := f)"
  by (simp add: write_file_def)

lemma load_data_Content_dict:
  "files w p = Content (JDict d) \<Longrightarrow>
   fst (load_data p w) =
     (let stored = dict_get d ''checksum'' JNull
      in if \<not> truthy stored \<or> stored = JStr (calculate_checksum d) then Inr d
         else Inr default_data)"
  by (auto simp: load_data_def Let_def)

lemma save_data_IoOk:
  "save_data IoOk (m, w) =
     (let m' = m\<lparr>data := dict_set (data m) ''checksum'' (JStr (calculate_checksum (data m)))\<rparr>
      in (Inr (), m', logger DEBUG ''Saved license data''
            (write_file (license_file m) (Content (JDict (data m'))) w)))"
  by (simp add: save_data_def Let_def)

lemma save_data_cases:
  "save_data io (m, w) =
     (Inr (),
      (if io = MkdirFails then m
       else m\<lparr>data := dict_set (data m) ''checksum'' (JStr (calculate_checksum (data m)))\<rparr>),
      (case io of
         IoOk \<Rightarrow> logger DEBUG ''Saved license data''
                  (write_file (license_file m)
                     (Content (JDict (dict_set (data m) ''checksum''
                        (JStr (calculate_checksum (data m)))))) w)
       | MkdirFails \<Rightarrow> logger ERROR ''Failed to save license data'' w
       | OpenFails \<Rightarrow> logger ERROR ''Failed to save license data'' w
       | WriteFails f \<Rightarrow>
           logger ERROR ''Failed to save license data'' (write_file (license_file m) f w)))"
  by (cases io) (simp_all add: save_data_def Let_def)

lemma fst_save_data: "fst (save_data io (m, w)) = Inr ()"
  by (simp add: save_data_cases)

lemma data_save_data:
  "data (fst (snd (save_data io (m, w)))) =
     (if io = MkdirFails then data m
      else dict_set (data m) ''checksum'' (JStr (calculate_checksum (data m))))"
  by (simp add: save_data_cases)

lemma save_data_keeps_paths:
  "license_file (fst (snd (save_data io (m, w)))) = license_file m
   \<and> license_keys_file (fst (snd (save_data io (m, w)))) = license_keys_file m
   \<and> license_keys_cache (fst (snd (save_data io (m, w)))) = license_keys_cache m"
  by (simp add: save_data_cases)

lemma files_save_data:
  "files (snd (snd (save_data io (m, w)))) =
     (case io of
        IoOk \<Rightarrow> (files w)(license_file m := Content (JDict (dict_set (data m) ''checksum''
                        (JStr (calculate_checksum (data m))))))
      | MkdirFails \<Rightarrow> files w
      | OpenFails \<Rightarrow> files w
      | WriteFails f \<Rightarrow> (files w)(license_file m := f))"
  by (cases io) (simp_all add: save_data_cases)

lemma last_log_save_data:
  "io \<noteq> IoOk \<Longrightarrow>
     last (log_records (snd (snd (save_data io (m, w))))) = (ERROR, ''Failed to save license data'')"
  by (cases io) (simp_all add: save_data_cases logger_def)

lemma manager_eqI:
  "license_file a = license_file b \<Longrightarrow> license_keys_file a = license_keys_file b \<Longrightarrow>
   data a = data b \<Longrightarrow> license_keys_cache a = license_keys_cache b \<Longrightarrow> (a :: manager) = b"
  by simp

lemma init_fresh:
  "init ''license.json'' (Some ''keys.json'') empty_world = (Inr fresh_manager, empty_world)"
  by (simp add: init_def load_data_def empty_world_def fresh_manager_def)

subsection \<open>The activations and the revocation, in terms of save\<close>

lemma revoke_license_eq:
  "revoke_license io (m, w) =
     (Inr (), fst (snd (save_data io (m\<lparr>data := default_data\<rparr>, w))),
      logger INFO ''License revoked'' (snd (snd (save_data io (m\<lparr>data := default_data\<rparr>, w)))))"
  by (simp add: revoke_license_def save_data_cases)

lemma activate_with_stripe_eq:
  "activate_with_stripe io now sid pi em (m, w) =
     (let m1 = m\<lparr>data :=
                    [(''licensed'', JBool True),
                     (''license_type'', JStr LICENSE_TYPE_STRIPE),
                     (''stripe_session_id'', JStr sid),
                     (''stripe_payment_intent'', opt_str pi),
                     (''license_key'', JNull),
                     (''activated_at'', JStr now),
                     (''email'', opt_str em),
                     (''checksum'', JNull)]\<rparr>
      in (Inr True, fst (snd (save_data io (m1, w))),
          logger INFO ''License activated via Stripe payment'' (snd (snd (save_data io (m1, w))))))"
  by (simp add: activate_with_stripe_def save_data_cases Let_def)

lemma activate_with_promo_eq:
  "activate_with_promo io now sid code em (m, w) =
     (let m1 = m\<lparr>data :=
                    [(''licensed'', JBool True),
                     (''license_type'', JStr LICENSE_TYPE_PROMO),
                     (''stripe_session_id'', JStr sid),
                     (''stripe_payment_intent'', JNull),
                     (''license_key'', JStr code),
                     (''activated_at'', JStr now),
                     (''email'', opt_str em),
                     (''checksum'', JNull)]\<rparr>
      in (Inr True, fst (snd (save_data io (m1, w))),
          logger INFO ''License activated via promo code'' (snd (snd (save_data io (m1, w))))))"
  by (simp add: activate_with_promo_def save_data_cases Let_def)

lemma activate_with_key_valid:
  "validate_license_key py key (m, w) = (Inr True, m0, w0) \<Longrightarrow>
   activate_with_key py io now key (m, w) =
     (let m1 = m0\<lparr>data :=
                    [(''licensed'', JBool True),
                     (''license_type'', JStr LICENSE_TYPE_KEY),
                     (''stripe_session_id'', JNull),
                     (''stripe_payment_intent'', JNull),
                     (''license_key'', JStr (normalize_key py key)),
                     (''activated_at'', JStr now),
                     (''email'', JNull),
                     (''checksum'', JNull)]\<rparr>
      in (Inr True, fst (snd (save_data io (m1, w0))),
          logger INFO ''License activated via license key'' (snd (snd (save_data io (m1, w0))))))"
  by (simp add: activate_with_key_def save_data_cases Let_def)

lemma activate_with_key_success_data:
  "fst (activate_with_key py io now k s) = Inr True \<Longrightarrow>
     dict_get (data (fst (snd (activate_with_key py io now k s)))) ''license_key'' JNull
       = JStr (normalize_key py k)
     \<and> is_licensed (fst (snd (activate_with_key py io now k s))) = JBool True"
proof -
  assume a: "fst (activate_with_key py io now k s) = Inr True"
  obtain m w where s: "s = (m, w)" by (cases s)
  obtain r m0 w0 where v: "validate_license_key py k (m, w) = (r, m0, w0)"
    by (cases "validate_license_key py k (m, w)") auto
  have "r = Inr True"
  proof (cases r)
    case (Inl e)
    with a v s show ?thesis by (simp add: activate_with_key_def)
  next
    case (Inr b)
    with a v s show ?thesis by (cases b) (simp_all add: activate_with_key_def)
  qed
  with v have "validate_license_key py k (m, w) = (Inr True, m0, w0)" by simp
  then show ?thesis
    unfolding s
    by (simp add: activate_with_key_valid Let_def data_save_data dict_get_def is_licensed_def)
qed

lemma data_after_stripe:
  "data (fst (snd (activate_with_stripe IoOk now sid pi (Some e) (m, w)))) =
     [(''licensed'', JBool True),
      (''license_type'', JStr LICENSE_TYPE_STRIPE),
      (''stripe_session_id'', JStr sid),
      (''stripe_payment_intent'', opt_str pi),
      (''license_key'', JNull),
      (''activated_at'', JStr now),
      (''email'', JStr e),
      (''checksum'', JStr (calculate_checksum
         [(''licensed'', JBool True),
          (''license_type'', JStr LICENSE_TYPE_STRIPE),
          (''stripe_session_id'', JStr sid),
          (''stripe_payment_intent'', opt_str pi),
          (''license_key'', JNull),
          (''activated_at'', JStr now),
          (''email'', JStr e),
          (''checksum'', JNull)]))]"
  by (simp add: activate_with_stripe_eq Let_def data_save_data)

lemma files_after_stripe:
  "files (snd (snd (activate_with_stripe IoOk now sid pi em (m, w)))) (license_file m) =
     Content (JDict (data (fst (snd (activate_with_stripe IoOk now sid pi em (m, w))))))"
  by (simp add: activate_with_stripe_eq Let_def files_save_data data_save_data)

subsection \<open>The key loader\<close>

lemma load_license_keys_frame:
  "load_license_keys py (m, w) = (r, m', w') \<Longrightarrow>
     data m' = data m \<and> files w' = files w \<and> license_file m' = license_file m
     \<and> license_keys_file m' = license_keys_file m"
  by (auto simp: load_license_keys_def split: option.splits sum.splits prod.splits if_splits)

lemma activate_with_key_invalid:
  "fst (load_license_keys py (m, w)) = Inr keys \<Longrightarrow> normalize_key py key \<notin> keys \<Longrightarrow>
     fst (activate_with_key py io now key (m, w)) = Inr False
     \<and> data (fst (snd (activate_with_key py io now key (m, w)))) = data m
     \<and> files (snd (snd (activate_with_key py io now key (m, w)))) = files w"
proof -
  assume a: "fst (load_license_keys py (m, w)) = Inr keys" and b: "normalize_key py key \<notin> keys"
  obtain r0 m0 w0 where l: "load_license_keys py (m, w) = (r0, m0, w0)"
    by (cases "load_license_keys py (m, w)") auto
  with a have r0: "r0 = Inr keys" by simp
  from load_license_keys_frame [OF l] have fr: "data m0 = data m" "files w0 = files w" by auto
  show ?thesis
    using b fr by (simp add: activate_with_key_def validate_license_key_def l r0)
qed

lemma norm_ex3: "normalize_key latin1 ''BD-AAAA-BBBB-CCCC-DDDD'' = ''BD-AAAA-BBBB-CCCC-DDDD''"
  by code_simp


lemma norm_ex5: "normalize_key latin1 '' bd-aaaa-bbbb-cccc-dddd '' = ''BD-AAAA-BBBB-CCCC-DDDD''"
  by code_simp

lemma norm_ex6:
  "normalize_key latin1 (CHR 0xA0 # ''bd-aaaa-bbbb-cccc-dddd '') = ''BD-AAAA-BBBB-CCCC-DDDD''"
  by code_simp

lemma norm_ex7: "normalize_key latin1 [CHR 0xE9, CHR 0xDF, CHR 0x85] = [CHR 0xC9, CHR ''S'', CHR ''S'']"
  by code_simp

lemma norm_a: "normalize_key latin1 ''a'' = ''A''"
  by code_simp

lemma norm_b: "normalize_key latin1 ''b'' = ''B''"
  by code_simp

lemma keys_example:
  "load_license_keys latin1 (fresh_manager, keys_world)
   = (Inr {''BD-AAAA-BBBB-CCCC-DDDD''},
      fresh_manager\<lparr>license_keys_cache := Some {''BD-AAAA-BBBB-CCCC-DDDD''}\<rparr>,
      logger DEBUG ''Loaded valid license keys'' keys_world)"
  by (simp add: load_license_keys_def fresh_manager_def read_keys_def keys_world_def norm_ex3)

lemma validate_example:
  "normalize_key latin1 k = ''BD-AAAA-BBBB-CCCC-DDDD'' \<Longrightarrow>
   fst (validate_license_key latin1 k (fresh_manager, keys_world)) = Inr True"
  by (simp add: validate_license_key_def keys_example)

lemma activate_example:
  "normalize_key latin1 k = ''BD-AAAA-BBBB-CCCC-DDDD'' \<Longrightarrow>
   fst (activate_with_key latin1 io now k (fresh_manager, keys_world)) = Inr True"
proof -
  assume n: "normalize_key latin1 k = ''BD-AAAA-BBBB-CCCC-DDDD''"
  obtain m0 w0 where "validate_license_key latin1 k (fresh_manager, keys_world) = (Inr True, m0, w0)"
    using validate_example [OF n]
    by (cases "validate_license_key latin1 k (fresh_manager, keys_world)") auto
  then show ?thesis by (simp add: activate_with_key_valid Let_def)
qed

section \<open>Tamper detection\<close>

text \<open>
  C1, as amended. If a persisted record carries a non-empty (truthy) checksum that differs
  from the checksum recomputed over its other fields, \<^verbatim>\<open>_verify_checksum\<close> returns False
  and \<^verbatim>\<open>_load_data\<close> returns the default Unlicensed record. For a record written by
  \<^verbatim>\<open>_save_data\<close>, changing one persisted field other than \<^verbatim>\<open>checksum\<close> before the load
  gives the default record exactly when the changed record's checksum differs from the
  stamped one; when the two sixteen-digit checksums coincide, the changed record is
  returned.
\<close>

theorem tamper_detection:
  "(files w p = Content (JDict d) \<and> map_of d ''checksum'' = Some c \<and> truthy c
      \<and> c \<noteq> JStr (calculate_checksum d)
      \<longrightarrow> verify_checksum (JDict d) = Inr False \<and> fst (load_data p w) = Inr default_data)
   \<and> (save_data IoOk (m, w0) = (r, m', w') \<and> k \<noteq> ''checksum''
      \<longrightarrow> fst (load_data (license_file m)
                 (write_file (license_file m) (Content (JDict (dict_set (data m') k v))) w'))
            = (if calculate_checksum (dict_set (data m') k v) = calculate_checksum (data m')
               then Inr (dict_set (data m') k v) else Inr default_data))"
proof (intro conjI impI)
  assume a: "files w p = Content (JDict d) \<and> map_of d ''checksum'' = Some c \<and> truthy c
      \<and> c \<noteq> JStr (calculate_checksum d)"
  then show "verify_checksum (JDict d) = Inr False"
    by (simp add: dict_get_def)
  from a show "fst (load_data p w) = Inr default_data"
    by (simp add: load_data_Content_dict dict_get_def)
next
  assume a: "save_data IoOk (m, w0) = (r, m', w') \<and> k \<noteq> ''checksum''"
  let ?t = "dict_set (data m') k v"
  from a have dm: "data m' = dict_set (data m) ''checksum'' (JStr (calculate_checksum (data m)))"
    by (auto simp: save_data_IoOk Let_def)
  have stored: "map_of ?t ''checksum'' = Some (JStr (calculate_checksum (data m')))"
  proof -
    from a have "''checksum'' \<noteq> k" by blast
    then have "map_of ?t ''checksum'' = map_of (data m') ''checksum''"
      by (rule map_of_dict_set_other)
    then show ?thesis
      by (simp add: dm map_of_dict_set_same calculate_checksum_dict_set)
  qed
  show "fst (load_data (license_file m) (write_file (license_file m) (Content (JDict ?t)) w'))
      = (if calculate_checksum ?t = calculate_checksum (data m') then Inr ?t else Inr default_data)"
    using calculate_checksum_nonempty [of "data m'"]
    by (auto simp: load_data_Content_dict dict_get_def stored)
qed

text \<open>The theorem at two files. A record whose checksum was overwritten with
  \<^verbatim>\<open>"deadbeef"\<close> is replaced by the default record. The record \<^verbatim>\<open>{"licensed": true}\<close> is
  saved with the checksum \<^verbatim>\<open>bb000d6a468744a3\<close>; with \<^verbatim>\<open>licensed\<close> edited to \<^verbatim>\<open>false\<close> the
  recomputed checksum is \<^verbatim>\<open>4465899babcebf0a\<close>, and the load returns the default record.\<close>

theorem tamper_detection_witness:
  "files (write_file ''license.json''
       (Content (JDict [(''licensed'', JBool True), (''checksum'', JStr ''deadbeef'')]))
       empty_world) ''license.json''
     = Content (JDict [(''licensed'', JBool True), (''checksum'', JStr ''deadbeef'')])
   \<and> map_of [(''licensed'', JBool True), (''checksum'', JStr ''deadbeef'')] ''checksum''
       = Some (JStr ''deadbeef'')
   \<and> truthy (JStr ''deadbeef'')
   \<and> JStr ''deadbeef''
       \<noteq> JStr (calculate_checksum [(''licensed'', JBool True), (''checksum'', JStr ''deadbeef'')])
   \<and> fst (load_data ''license.json'' (write_file ''license.json''
       (Content (JDict [(''licensed'', JBool True), (''checksum'', JStr ''deadbeef'')]))
       empty_world)) = Inr default_data
   \<and> data (fst (snd (save_data IoOk (small_manager, empty_world))))
       = [(''licensed'', JBool True), (''checksum'', JStr ''bb000d6a468744a3'')]
   \<and> ''licensed'' \<noteq> ''checksum''
   \<and> dict_set (data (fst (snd (save_data IoOk (small_manager, empty_world)))))
        ''licensed'' (JBool False)
       = [(''licensed'', JBool False), (''checksum'', JStr ''bb000d6a468744a3'')]
   \<and> fst (load_data ''license.json''
        (write_file ''license.json''
           (Content (JDict [(''licensed'', JBool False), (''checksum'', JStr ''bb000d6a468744a3'')]))
           (snd (snd (save_data IoOk (small_manager, empty_world))))))
       = Inr default_data"
proof -
  let ?d = "[(''licensed'', JBool True), (''checksum'', JStr ''deadbeef'')]"
  let ?w = "write_file ''license.json'' (Content (JDict ?d)) empty_world"
  let ?s = "save_data IoOk (small_manager, empty_world)"
  let ?t = "[(''licensed'', JBool False), (''checksum'', JStr ''bb000d6a468744a3'')]"
  have f: "files ?w ''license.json'' = Content (JDict ?d)" by simp
  have c: "map_of ?d ''checksum'' = Some (JStr ''deadbeef'')" by simp
  have t: "truthy (JStr ''deadbeef'')" by simp
  have n: "JStr ''deadbeef'' \<noteq> JStr (calculate_checksum ?d)"
    by (rule calculate_checksum_neq_short) simp
  have p: "?s = (fst ?s, fst (snd ?s), snd (snd ?s))" by simp
  have k: "''licensed'' \<noteq> ''checksum''" by simp
  have lf: "license_file small_manager = ''license.json''"
    by (simp add: small_manager_def fresh_manager_def)
  have saved: "data (fst (snd ?s))
      = [(''licensed'', JBool True), (''checksum'', JStr ''bb000d6a468744a3'')]"
    by (simp add: data_save_data small_manager_def checksum_licensed_true)
  have tampered: "dict_set (data (fst (snd ?s))) ''licensed'' (JBool False) = ?t"
    by (simp add: saved)
  have c1: "calculate_checksum ?t = ''4465899babcebf0a''"
    using calculate_checksum_dict_set [of "[(''licensed'', JBool False)]" "JStr ''bb000d6a468744a3''"]
    by (simp add: checksum_licensed_false)
  have c2: "calculate_checksum (data (fst (snd ?s))) = ''bb000d6a468744a3''"
    using calculate_checksum_dict_set [of "[(''licensed'', JBool True)]" "JStr ''bb000d6a468744a3''"]
    by (simp add: saved checksum_licensed_true)
  note T = tamper_detection [of ?w "''license.json''" ?d "JStr ''deadbeef''"
      small_manager empty_world "fst ?s" "fst (snd ?s)" "snd (snd ?s)" "''licensed''"
      "JBool False"]
  from T f c t n have one: "fst (load_data ''license.json'' ?w) = Inr default_data"
    by blast
  from T p k have "fst (load_data (license_file small_manager)
        (write_file (license_file small_manager)
           (Content (JDict (dict_set (data (fst (snd ?s))) ''licensed'' (JBool False))))
           (snd (snd ?s))))
       = (if calculate_checksum (dict_set (data (fst (snd ?s))) ''licensed'' (JBool False))
             = calculate_checksum (data (fst (snd ?s)))
          then Inr (dict_set (data (fst (snd ?s))) ''licensed'' (JBool False))
          else Inr default_data)"
    by blast
  then have two: "fst (load_data ''license.json''
        (write_file ''license.json'' (Content (JDict ?t)) (snd (snd ?s)))) = Inr default_data"
    unfolding lf tampered c1 c2 by simp
  from f c t n one saved k tampered two show ?thesis
    by blast
qed

text \<open>
  C1 as stated fails on its last part: a changed field need not change the checksum. The
  checksum is sixteen hexadecimal digits, so among the records that a Stripe activation
  saves, which differ in the e-mail address only, two have the same checksum. Rewriting
  the e-mail of the first into that of the second in the saved file leaves the stored
  checksum valid, and the load returns the edited record, not the default one.
\<close>

theorem tamper_undetected_on_collision:
  "\<exists>e1 e2. e1 \<noteq> e2 \<and>
     (let s = activate_with_stripe IoOk ''2024-05-01T10:00:00'' ''cs_test_123'' None (Some e1)
                (fresh_manager, empty_world);
          saved = data (fst (snd s));
          tampered = dict_set saved ''email'' (JStr e2)
      in files (snd (snd s)) ''license.json'' = Content (JDict saved)
         \<and> dict_get saved ''email'' JNull = JStr e1
         \<and> dict_get tampered ''email'' JNull = JStr e2
         \<and> fst (load_data ''license.json''
               (write_file ''license.json'' (Content (JDict tampered)) (snd (snd s))))
             = Inr tampered
         \<and> tampered \<noteq> default_data)"
proof -
  let ?rec = "\<lambda>e. [(''licensed'', JBool True),
          (''license_type'', JStr LICENSE_TYPE_STRIPE),
          (''stripe_session_id'', JStr ''cs_test_123''),
          (''stripe_payment_intent'', opt_str None),
          (''license_key'', JNull),
          (''activated_at'', JStr ''2024-05-01T10:00:00''),
          (''email'', JStr e),
          (''checksum'', JNull)]"
  obtain e1 e2 where ne: "e1 \<noteq> e2"
    and col: "calculate_checksum (?rec e1) = calculate_checksum (?rec e2)"
    using checksum_collision [of ?rec] by blast
  let ?s = "activate_with_stripe IoOk ''2024-05-01T10:00:00'' ''cs_test_123'' None (Some e1)
                (fresh_manager, empty_world)"
  let ?saved = "data (fst (snd ?s))"
  let ?t = "dict_set ?saved ''email'' (JStr e2)"
  have t: "?t = dict_set (?rec e2) ''checksum'' (JStr (calculate_checksum (?rec e1)))"
    by (simp add: data_after_stripe)
  have f: "files (snd (snd ?s)) ''license.json'' = Content (JDict ?saved)"
    using files_after_stripe [of "''2024-05-01T10:00:00''" "''cs_test_123''" None "Some e1"
        fresh_manager empty_world]
    by (simp add: fresh_manager_def)
  have g1: "dict_get ?saved ''email'' JNull = JStr e1"
    by (simp add: data_after_stripe dict_get_def)
  have g2: "dict_get ?t ''email'' JNull = JStr e2"
    by (simp add: dict_get_def map_of_dict_set_same)
  have ct: "calculate_checksum ?t = calculate_checksum (?rec e1)"
    unfolding t by (simp only: calculate_checksum_dict_set col)
  have st: "dict_get ?t ''checksum'' JNull = JStr (calculate_checksum (?rec e1))"
    unfolding t by (simp only: dict_get_def map_of_dict_set_same option.case)
  have fw: "files (write_file ''license.json'' (Content (JDict ?t)) (snd (snd ?s)))
      ''license.json'' = Content (JDict ?t)"
    by (simp only: files_write_file fun_upd_same)
  have l: "fst (load_data ''license.json''
               (write_file ''license.json'' (Content (JDict ?t)) (snd (snd ?s)))) = Inr ?t"
    unfolding load_data_Content_dict [OF fw] Let_def st ct by simp
  have d: "?t \<noteq> default_data"
    by (simp add: data_after_stripe default_data_def)
  from ne f g1 g2 l d show ?thesis
    unfolding Let_def by blast
qed

section \<open>Save failures\<close>

text \<open>
  C2, as amended. When \<^verbatim>\<open>_save_data\<close> meets an I/O error, the failure is logged at level
  ERROR and is not reported: \<^verbatim>\<open>_save_data\<close> returns nothing and raises nothing, exactly as
  it does when the write succeeds. The in-memory record remains changed (with the
  checksum stamped unless the directory could not be created), and every activation
  returns True whether or not the record was persisted.
\<close>

theorem save_failure_not_reported:
  "io \<noteq> IoOk \<Longrightarrow>
     fst (save_data io (m, w)) = Inr ()
     \<and> fst (save_data io (m, w)) = fst (save_data IoOk (m, w))
     \<and> last (log_records (snd (snd (save_data io (m, w)))))
         = (ERROR, ''Failed to save license data'')
     \<and> data (fst (snd (save_data io (m, w))))
         = (if io = MkdirFails then data m
            else dict_set (data m) ''checksum'' (JStr (calculate_checksum (data m))))
     \<and> fst (activate_with_stripe io now sid pi em (m, w)) = Inr True
     \<and> fst (activate_with_promo io now sid code em (m, w)) = Inr True
     \<and> (fst (validate_license_key py key (m, w)) = Inr True
          \<longrightarrow> fst (activate_with_key py io now key (m, w)) = Inr True)
     \<and> is_licensed (fst (snd (activate_with_stripe io now sid pi em (m, w)))) = JBool True
     \<and> is_licensed (fst (snd (activate_with_promo io now sid code em (m, w)))) = JBool True"
proof -
  assume io: "io \<noteq> IoOk"
  have k: "fst (activate_with_key py io now key (m, w)) = Inr True"
    if v: "fst (validate_license_key py key (m, w)) = Inr True"
  proof -
    obtain m0 w0 where "validate_license_key py key (m, w) = (Inr True, m0, w0)"
      using v by (cases "validate_license_key py key (m, w)") auto
    then show ?thesis
      by (simp add: activate_with_key_valid Let_def)
  qed
  have s: "is_licensed (fst (snd (activate_with_stripe io now sid pi em (m, w)))) = JBool True"
    by (simp add: activate_with_stripe_eq Let_def data_save_data is_licensed_def dict_get_def)
  have p: "is_licensed (fst (snd (activate_with_promo io now sid code em (m, w)))) = JBool True"
    by (simp add: activate_with_promo_eq Let_def data_save_data is_licensed_def dict_get_def)
  from io k s p show ?thesis
    by (simp add: fst_save_data last_log_save_data data_save_data
        activate_with_stripe_eq activate_with_promo_eq Let_def)
qed

theorem save_failure_not_reported_witness:
  "OpenFails \<noteq> IoOk
   \<and> fst (save_data OpenFails (licensed_manager, empty_world)) = Inr ()
   \<and> last (log_records (snd (snd (save_data OpenFails (licensed_manager, empty_world)))))
       = (ERROR, ''Failed to save license data'')
   \<and> dict_get (data (fst (snd (save_data OpenFails (licensed_manager, empty_world)))))
        ''checksum'' JNull = JStr (calculate_checksum (data licensed_manager))
   \<and> fst (activate_with_stripe OpenFails ''2024-05-01T10:00:00'' ''cs_test_123'' None None
            (fresh_manager, empty_world)) = Inr True
   \<and> is_licensed (fst (snd (activate_with_stripe OpenFails ''2024-05-01T10:00:00''
            ''cs_test_123'' None None (fresh_manager, empty_world)))) = JBool True
   \<and> fst (validate_license_key latin1 '' bd-aaaa-bbbb-cccc-dddd '' (fresh_manager, keys_world))
       = Inr True
   \<and> fst (activate_with_key latin1 OpenFails ''2024-05-01T10:00:00'' '' bd-aaaa-bbbb-cccc-dddd ''
        (fresh_manager, keys_world)) = Inr True"
proof -
  have n: "OpenFails \<noteq> IoOk" by simp
  have v: "fst (validate_license_key latin1 '' bd-aaaa-bbbb-cccc-dddd '' (fresh_manager, keys_world))
      = Inr True"
    by (rule validate_example [OF norm_ex5])
  from save_failure_not_reported [OF n, of licensed_manager empty_world]
  have a: "fst (save_data OpenFails (licensed_manager, empty_world)) = Inr ()"
    and b: "last (log_records (snd (snd (save_data OpenFails (licensed_manager, empty_world)))))
       = (ERROR, ''Failed to save license data'')"
    and c: "data (fst (snd (save_data OpenFails (licensed_manager, empty_world))))
       = dict_set (data licensed_manager) ''checksum''
           (JStr (calculate_checksum (data licensed_manager)))"
    by simp_all
  from save_failure_not_reported [OF n, of fresh_manager empty_world
      "''2024-05-01T10:00:00''" "''cs_test_123''" None None]
  have d: "fst (activate_with_stripe OpenFails ''2024-05-01T10:00:00'' ''cs_test_123'' None None
            (fresh_manager, empty_world)) = Inr True"
    and e: "is_licensed (fst (snd (activate_with_stripe OpenFails ''2024-05-01T10:00:00''
            ''cs_test_123'' None None (fresh_manager, empty_world)))) = JBool True"
    by simp_all
  from save_failure_not_reported [OF n, where m = fresh_manager and w = keys_world
      and py = latin1 and key = "'' bd-aaaa-bbbb-cccc-dddd ''"] v
  have f: "fst (activate_with_key latin1 OpenFails ''2024-05-01T10:00:00'' '' bd-aaaa-bbbb-cccc-dddd ''
        (fresh_manager, keys_world)) = Inr True"
    by simp
  from n a b c d e v f show ?thesis
    by (simp add: dict_get_def map_of_dict_set_same)
qed

text \<open>
  C2 as stated fails: the caller cannot tell a failed save from a successful one. With
  \<^verbatim>\<open>open\<close> raising, \<^verbatim>\<open>_save_data\<close> and \<^verbatim>\<open>activate_with_stripe\<close> return what they return
  when the write succeeds, and the license file is still missing afterwards.
\<close>

theorem save_failure_invisible:
  "fst (save_data OpenFails (fresh_manager, empty_world))
     = fst (save_data IoOk (fresh_manager, empty_world))
   \<and> fst (activate_with_stripe OpenFails ''2024-05-01T10:00:00'' ''cs_test_123'' None None
            (fresh_manager, empty_world)) = Inr True
   \<and> fst (activate_with_stripe IoOk ''2024-05-01T10:00:00'' ''cs_test_123'' None None
            (fresh_manager, empty_world)) = Inr True
   \<and> files (snd (snd (activate_with_stripe OpenFails ''2024-05-01T10:00:00'' ''cs_test_123''
            None None (fresh_manager, empty_world)))) ''license.json'' = Missing
   \<and> files (snd (snd (activate_with_stripe IoOk ''2024-05-01T10:00:00'' ''cs_test_123''
            None None (fresh_manager, empty_world)))) ''license.json'' \<noteq> Missing"
  by (simp add: fst_save_data activate_with_stripe_eq Let_def files_save_data fresh_manager_def
      empty_world_def)

section \<open>Round trip of save and load\<close>

text \<open>
  C3. Saving a record with \<^verbatim>\<open>_save_data\<close> (the write succeeding) and loading it with
  \<^verbatim>\<open>_load_data\<close> returns the record with its checksum attached: the save stamps the
  checksum of the record and changes no other field, the checksum recomputed at load time
  equals the stamped one, and the load returns the saved record. This holds for every
  record, so in particular for every valid record with \<^verbatim>\<open>licensed = true\<close>.
\<close>

theorem save_load_roundtrip:
  "save_data IoOk (m, w) = (r, m', w') \<Longrightarrow>
     r = Inr ()
     \<and> data m' = dict_set (data m) ''checksum'' (JStr (calculate_checksum (data m)))
     \<and> filter (\<lambda>kv. fst kv \<noteq> ''checksum'') (data m')
         = filter (\<lambda>kv. fst kv \<noteq> ''checksum'') (data m)
     \<and> verify_checksum (JDict (data m')) = Inr True
     \<and> dict_get (data m') ''checksum'' JNull = JStr (calculate_checksum (data m'))
     \<and> fst (load_data (license_file m') w') = Inr (data m')"
  by (auto simp: save_data_IoOk Let_def load_data_Content_dict calculate_checksum_dict_set
      dict_get_def map_of_dict_set_same filter_dict_set)

theorem save_load_roundtrip_witness:
  "fst (save_data IoOk (licensed_manager, empty_world)) = Inr ()
   \<and> dict_get (data (fst (snd (save_data IoOk (licensed_manager, empty_world))))) ''licensed'' JNull
       = JBool True
   \<and> dict_get (data (fst (snd (save_data IoOk (licensed_manager, empty_world))))) ''checksum'' JNull
       = JStr (calculate_checksum (data licensed_manager))
   \<and> fst (load_data ''license.json'' (snd (snd (save_data IoOk (licensed_manager, empty_world)))))
       = Inr (data (fst (snd (save_data IoOk (licensed_manager, empty_world)))))"
proof -
  let ?s = "save_data IoOk (licensed_manager, empty_world)"
  have p: "?s = (fst ?s, fst (snd ?s), snd (snd ?s))" by simp
  have lf: "license_file (fst (snd ?s)) = ''license.json''"
    by (simp add: save_data_IoOk Let_def licensed_manager_def fresh_manager_def)
  have l: "dict_get (data (fst (snd ?s))) ''licensed'' JNull = JBool True"
    by (simp add: save_data_IoOk Let_def licensed_manager_def fresh_manager_def dict_get_def)
  from save_load_roundtrip [OF p] l lf show ?thesis
    by (simp add: calculate_checksum_dict_set dict_get_def map_of_dict_set_same)
qed

section \<open>Records without a checksum\<close>

text \<open>
  C4. A persisted record with no \<^verbatim>\<open>checksum\<close> field is accepted by \<^verbatim>\<open>_verify_checksum\<close>
  and returned by \<^verbatim>\<open>_load_data\<close> exactly as stored, whatever its other fields say
  (\<^verbatim>\<open>licensed = true\<close> included); it is not replaced by the default record.
\<close>

theorem load_legacy:
  "files w p = Content (JDict d) \<Longrightarrow> map_of d ''checksum'' = None \<Longrightarrow>
     verify_checksum (JDict d) = Inr True \<and> fst (load_data p w) = Inr d"
  by (simp add: load_data_Content_dict dict_get_def)

theorem load_legacy_witness:
  "files (write_file ''license.json''
       (Content (JDict [(''licensed'', JBool True), (''license_type'', JStr ''license_key'')]))
       empty_world) ''license.json''
     = Content (JDict [(''licensed'', JBool True), (''license_type'', JStr ''license_key'')])
   \<and> map_of [(''licensed'', JBool True), (''license_type'', JStr ''license_key'')] ''checksum'' = None
   \<and> fst (load_data ''license.json'' (write_file ''license.json''
       (Content (JDict [(''licensed'', JBool True), (''license_type'', JStr ''license_key'')]))
       empty_world))
     = Inr [(''licensed'', JBool True), (''license_type'', JStr ''license_key'')]"
proof -
  let ?d = "[(''licensed'', JBool True), (''license_type'', JStr ''license_key'')]"
  let ?w = "write_file ''license.json'' (Content (JDict ?d)) empty_world"
  have f: "files ?w ''license.json'' = Content (JDict ?d)" by simp
  have c: "map_of ?d ''checksum'' = None" by simp
  from f c load_legacy [OF f c] show ?thesis by blast
qed

section \<open>Key lists of the wrong shape\<close>

text \<open>
  C5 fails on the code. A key-list file that parses but does not hold a list of strings is
  not tolerated: with \<^verbatim>\<open>{"keys": [42]}\<close> the loop calls \<^verbatim>\<open>strip\<close> on an int and
  \<^verbatim>\<open>activate_with_key\<close> raises \<^verbatim>\<open>AttributeError\<close>; with \<^verbatim>\<open>{"keys": null}\<close> it raises
  \<^verbatim>\<open>TypeError\<close>; with \<^verbatim>\<open>{"keys": "ab"}\<close> the loop runs over the characters, the key set
  is \<^verbatim>\<open>{"A", "B"}\<close> (the normalized characters, whatever the two string methods
  compute), and \<^verbatim>\<open>activate_with_key("a")\<close> succeeds. Neither exception is an
  \<^verbatim>\<open>IOError\<close> or a \<^verbatim>\<open>JSONDecodeError\<close>, the only ones caught.
\<close>

theorem malformed_key_list:
  "fst (activate_with_key py IoOk ''2024-05-01T10:00:00'' ''BD-0000-0000-0000-0000''
        (fresh_manager,
         write_file ''keys.json'' (Content (JDict [(''keys'', JList [JInt 42])])) empty_world))
     = Inl AttributeError
   \<and> fst (activate_with_key py IoOk ''2024-05-01T10:00:00'' ''BD-0000-0000-0000-0000''
        (fresh_manager,
         write_file ''keys.json'' (Content (JDict [(''keys'', JNull)])) empty_world))
     = Inl TypeError
   \<and> fst (load_license_keys py
        (fresh_manager,
         write_file ''keys.json'' (Content (JDict [(''keys'', JStr ''ab'')])) empty_world))
     = Inr {normalize_key py ''a'', normalize_key py ''b''}
   \<and> fst (load_license_keys latin1
        (fresh_manager,
         write_file ''keys.json'' (Content (JDict [(''keys'', JStr ''ab'')])) empty_world))
     = Inr {''A'', ''B''}
   \<and> fst (activate_with_key py IoOk ''2024-05-01T10:00:00'' ''a''
        (fresh_manager,
         write_file ''keys.json'' (Content (JDict [(''keys'', JStr ''ab'')])) empty_world))
     = Inr True"
  by (simp add: activate_with_key_def validate_license_key_def load_license_keys_def
      read_keys_def fresh_manager_def save_data_cases Let_def insert_commute norm_a norm_b)

text \<open>What does hold of C5: with no key file configured, a missing, unreadable or
  unparsable one, or one whose JSON value yields no key and no exception (neither a list
  nor a dict with \<^verbatim>\<open>keys\<close>, or an empty list), the key set is empty and every
  \<^verbatim>\<open>activate_with_key\<close> returns False and leaves the record and the files as they were.\<close>

lemma fail_closed_key_set:
  "license_keys_cache m = None \<Longrightarrow>
   license_keys_file m = None
   \<or> (\<exists>p. license_keys_file m = Some p
        \<and> (files w p = Missing \<or> files w p = Unreadable \<or> files w p = Malformed
            \<or> (\<exists>j. files w p = Content j \<and> read_keys py j {} = (None, {})))) \<Longrightarrow>
     fst (load_license_keys py (m, w)) = Inr {}
     \<and> fst (activate_with_key py io now key (m, w)) = Inr False
     \<and> data (fst (snd (activate_with_key py io now key (m, w)))) = data m
     \<and> files (snd (snd (activate_with_key py io now key (m, w)))) = files w"
proof -
  assume c: "license_keys_cache m = None"
    and f: "license_keys_file m = None
   \<or> (\<exists>p. license_keys_file m = Some p
        \<and> (files w p = Missing \<or> files w p = Unreadable \<or> files w p = Malformed
            \<or> (\<exists>j. files w p = Content j \<and> read_keys py j {} = (None, {}))))"
  have l: "fst (load_license_keys py (m, w)) = Inr {}"
    using c f by (auto simp: load_license_keys_def)
  from l activate_with_key_invalid [OF l, of key io now] show ?thesis by simp
qed

lemma fail_closed_key_set_witness:
  "license_keys_cache fresh_manager = None
   \<and> license_keys_file fresh_manager = Some ''keys.json''
   \<and> files empty_world ''keys.json'' = Missing
   \<and> fst (activate_with_key latin1 IoOk ''2024-05-01T10:00:00'' ''BD-AAAA-BBBB-CCCC-DDDD''
        (fresh_manager, empty_world)) = Inr False
   \<and> data (fst (snd (activate_with_key latin1 IoOk ''2024-05-01T10:00:00'' ''BD-AAAA-BBBB-CCCC-DDDD''
        (fresh_manager, empty_world)))) = default_data"
proof -
  have c: "license_keys_cache fresh_manager = None" by (simp add: fresh_manager_def)
  have p: "license_keys_file fresh_manager = Some ''keys.json''" by (simp add: fresh_manager_def)
  have f: "files empty_world ''keys.json'' = Missing" by (simp add: empty_world_def)
  have d: "data fresh_manager = default_data" by (simp add: fresh_manager_def)
  from p f have h: "license_keys_file fresh_manager = None
   \<or> (\<exists>p. license_keys_file fresh_manager = Some p
        \<and> (files empty_world p = Missing \<or> files empty_world p = Unreadable
            \<or> files empty_world p = Malformed
            \<or> (\<exists>j. files empty_world p = Content j \<and> read_keys latin1 j {} = (None, {}))))"
    by blast
  from c p f d fail_closed_key_set [OF c h, of IoOk "''2024-05-01T10:00:00''"
      "''BD-AAAA-BBBB-CCCC-DDDD''"]
  show ?thesis by simp
qed

section \<open>Invalid keys\<close>



section \<open>Key normalization\<close>

text \<open>
  C7. Two keys that are equal after \<^verbatim>\<open>strip\<close> and \<^verbatim>\<open>upper\<close> are treated alike by
  \<^verbatim>\<open>activate_with_key\<close>: from the same state, at the same time and with the same outcome
  of the write, the two calls give the same result, the same manager and the same world.
  So both succeed or both fail, and on success both store the same record, whose
  \<^verbatim>\<open>license_key\<close> is the normalized key. This holds whatever \<^verbatim>\<open>str.strip\<close> and
  \<^verbatim>\<open>str.upper\<close> compute; the example has a key with a no-break space in front, lower-case
  letters and a trailing space.
\<close>

theorem key_variants_behave_identically:
  "normalize_key py k1 = normalize_key py k2 \<Longrightarrow>
     activate_with_key py io now k1 s = activate_with_key py io now k2 s
     \<and> (fst (activate_with_key py io now k1 s) = Inr True \<longrightarrow>
          dict_get (data (fst (snd (activate_with_key py io now k1 s)))) ''license_key'' JNull
            = JStr (normalize_key py k1)
          \<and> dict_get (data (fst (snd (activate_with_key py io now k2 s)))) ''license_key'' JNull
            = JStr (normalize_key py k1))"
proof -
  assume eq: "normalize_key py k1 = normalize_key py k2"
  have same: "activate_with_key py io now k1 s = activate_with_key py io now k2 s"
    unfolding activate_with_key_def validate_license_key_def eq by (rule refl)
  show ?thesis
    using same activate_with_key_success_data [of py io now k1 s] by simp
qed

theorem key_variants_behave_identically_witness:
  "normalize_key latin1 (CHR 0xA0 # ''bd-aaaa-bbbb-cccc-dddd '') = normalize_key latin1 ''BD-AAAA-BBBB-CCCC-DDDD''
   \<and> activate_with_key latin1 IoOk ''2024-05-01T10:00:00'' (CHR 0xA0 # ''bd-aaaa-bbbb-cccc-dddd '')
        (fresh_manager, keys_world)
     = activate_with_key latin1 IoOk ''2024-05-01T10:00:00'' ''BD-AAAA-BBBB-CCCC-DDDD''
        (fresh_manager, keys_world)
   \<and> fst (activate_with_key latin1 IoOk ''2024-05-01T10:00:00'' (CHR 0xA0 # ''bd-aaaa-bbbb-cccc-dddd '')
        (fresh_manager, keys_world)) = Inr True
   \<and> dict_get (data (fst (snd (activate_with_key latin1 IoOk ''2024-05-01T10:00:00''
        (CHR 0xA0 # ''bd-aaaa-bbbb-cccc-dddd '') (fresh_manager, keys_world))))) ''license_key'' JNull
     = JStr ''BD-AAAA-BBBB-CCCC-DDDD''"
proof -
  have h: "normalize_key latin1 (CHR 0xA0 # ''bd-aaaa-bbbb-cccc-dddd '') = normalize_key latin1 ''BD-AAAA-BBBB-CCCC-DDDD''"
    by (simp add: norm_ex3 norm_ex6)
  have ok: "fst (activate_with_key latin1 IoOk ''2024-05-01T10:00:00'' (CHR 0xA0 # ''bd-aaaa-bbbb-cccc-dddd '')
        (fresh_manager, keys_world)) = Inr True"
    by (rule activate_example [OF norm_ex6])
  from h ok key_variants_behave_identically [OF h, of IoOk "''2024-05-01T10:00:00''"
      "(fresh_manager, keys_world)"]
  show ?thesis
    by (simp add: norm_ex6)
qed

section \<open>Revocation\<close>

text \<open>
  C8. \<^verbatim>\<open>revoke_license\<close> raises nothing, from any state and whatever the write does. After
  each of two calls in a row the record is the default Unlicensed record, with its
  \<^verbatim>\<open>checksum\<close> field stamped by the save (or still \<^verbatim>\<open>None\<close> when the directory could not
  be created), and \<^verbatim>\<open>is_licensed\<close> is False. When the write behaves the same way in both
  calls, the manager and the files after the second call are those after the first.
\<close>

theorem revoke_idempotent:
  "revoke_license io1 (m, w) = (r1, m1, w1) \<Longrightarrow>
   revoke_license io2 (m1, w1) = (r2, m2, w2) \<Longrightarrow>
     r1 = Inr () \<and> r2 = Inr ()
     \<and> data m1 = (if io1 = MkdirFails then default_data
                  else dict_set default_data ''checksum'' (JStr (calculate_checksum default_data)))
     \<and> data m2 = (if io2 = MkdirFails then default_data
                  else dict_set default_data ''checksum'' (JStr (calculate_checksum default_data)))
     \<and> filter (\<lambda>kv. fst kv \<noteq> ''checksum'') (data m1)
         = filter (\<lambda>kv. fst kv \<noteq> ''checksum'') default_data
     \<and> filter (\<lambda>kv. fst kv \<noteq> ''checksum'') (data m2)
         = filter (\<lambda>kv. fst kv \<noteq> ''checksum'') default_data
     \<and> is_licensed m1 = JBool False \<and> is_licensed m2 = JBool False
     \<and> (io1 = io2 \<longrightarrow> m2 = m1 \<and> files w2 = files w1)"
proof -
  assume a1: "revoke_license io1 (m, w) = (r1, m1, w1)"
    and a2: "revoke_license io2 (m1, w1) = (r2, m2, w2)"
  let ?s1 = "save_data io1 (m\<lparr>data := default_data\<rparr>, w)"
  let ?s2 = "save_data io2 (m1\<lparr>data := default_data\<rparr>, w1)"
  from a1 have r1: "r1 = Inr ()" and m1: "m1 = fst (snd ?s1)"
    and w1: "w1 = logger INFO ''License revoked'' (snd (snd ?s1))"
    by (simp_all add: revoke_license_eq)
  from a2 have r2: "r2 = Inr ()" and m2: "m2 = fst (snd ?s2)"
    and w2: "w2 = logger INFO ''License revoked'' (snd (snd ?s2))"
    by (simp_all add: revoke_license_eq)
  have d1: "data m1 = (if io1 = MkdirFails then default_data
                  else dict_set default_data ''checksum'' (JStr (calculate_checksum default_data)))"
    by (simp add: m1 data_save_data)
  have d2: "data m2 = (if io2 = MkdirFails then default_data
                  else dict_set default_data ''checksum'' (JStr (calculate_checksum default_data)))"
    by (simp add: m2 data_save_data)
  have e1: "filter (\<lambda>kv. fst kv \<noteq> ''checksum'') (data m1)
         = filter (\<lambda>kv. fst kv \<noteq> ''checksum'') default_data"
    by (simp add: d1 filter_dict_set)
  have e2: "filter (\<lambda>kv. fst kv \<noteq> ''checksum'') (data m2)
         = filter (\<lambda>kv. fst kv \<noteq> ''checksum'') default_data"
    by (simp add: d2 filter_dict_set)
  have l1: "is_licensed m1 = JBool False"
    by (simp add: is_licensed_def dict_get_def d1 default_data_def)
  have l2: "is_licensed m2 = JBool False"
    by (simp add: is_licensed_def dict_get_def d2 default_data_def)
  have p1: "license_file m1 = license_file m"
    using save_data_keeps_paths [of io1 "m\<lparr>data := default_data\<rparr>" w] by (simp add: m1)
  have p2: "license_file m2 = license_file m1 \<and> license_keys_file m2 = license_keys_file m1
      \<and> license_keys_cache m2 = license_keys_cache m1"
    using save_data_keeps_paths [of io2 "m1\<lparr>data := default_data\<rparr>" w1] by (simp add: m2)
  have same: "m2 = m1 \<and> files w2 = files w1" if eq: "io1 = io2"
  proof
    show "m2 = m1"
      using p2 d1 d2 eq by (intro manager_eqI) simp_all
    have f1: "files w1 = files (snd (snd ?s1))" by (simp add: w1)
    have f2: "files w2 = files (snd (snd ?s2))" by (simp add: w2)
    show "files w2 = files w1"
      unfolding f1 f2 files_save_data using eq p1 f1
      by (cases io2) (simp_all add: files_save_data)
  qed
  from r1 r2 d1 d2 e1 e2 l1 l2 same show ?thesis by blast
qed

theorem revoke_idempotent_witness:
  "fst (revoke_license IoOk (licensed_manager, empty_world)) = Inr ()
   \<and> fst (revoke_license IoOk (snd (revoke_license IoOk (licensed_manager, empty_world)))) = Inr ()
   \<and> data (fst (snd (revoke_license IoOk (licensed_manager, empty_world))))
       = dict_set default_data ''checksum'' (JStr (calculate_checksum default_data))
   \<and> is_licensed (fst (snd (revoke_license IoOk (licensed_manager, empty_world)))) = JBool False
   \<and> fst (snd (revoke_license IoOk (snd (revoke_license IoOk (licensed_manager, empty_world)))))
       = fst (snd (revoke_license IoOk (licensed_manager, empty_world)))
   \<and> files (snd (snd (revoke_license IoOk (snd (revoke_license IoOk (licensed_manager, empty_world))))))
       = files (snd (snd (revoke_license IoOk (licensed_manager, empty_world))))"
proof -
  let ?a = "revoke_license IoOk (licensed_manager, empty_world)"
  let ?b = "revoke_license IoOk (fst (snd ?a), snd (snd ?a))"
  have pa: "?a = (fst ?a, fst (snd ?a), snd (snd ?a))" by simp
  have pb: "?b = (fst ?b, fst (snd ?b), snd (snd ?b))" by simp
  from revoke_idempotent [OF pa pb] show ?thesis by simp
qed

section \<open>The activation date\<close>

text \<open>
  C9 fails on the code. A license file without a checksum is loaded as it is, so
  \<^verbatim>\<open>activated_at\<close> can hold a number; \<^verbatim>\<open>datetime.fromisoformat\<close> then raises
  \<^verbatim>\<open>TypeError\<close>, which \<^verbatim>\<open>except ValueError\<close> lets through to the caller of
  \<^verbatim>\<open>get_activation_date\<close>.
\<close>

theorem activation_date_type_error:
  "init ''license.json'' None
      (write_file ''license.json''
         (Content (JDict [(''licensed'', JBool True), (''activated_at'', JInt 20240501)]))
         empty_world)
     = (Inr \<lparr>license_file = ''license.json'', license_keys_file = None,
             data = [(''licensed'', JBool True), (''activated_at'', JInt 20240501)],
             license_keys_cache = None\<rparr>,
        logger DEBUG ''Loaded license data''
          (write_file ''license.json''
             (Content (JDict [(''licensed'', JBool True), (''activated_at'', JInt 20240501)]))
             empty_world))
   \<and> get_activation_date fromisoformat
        \<lparr>license_file = ''license.json'', license_keys_file = None,
         data = [(''licensed'', JBool True), (''activated_at'', JInt 20240501)],
         license_keys_cache = None\<rparr>
     = Inl TypeError"
  by (simp add: init_def load_data_def get_activation_date_def dict_get_def Let_def)

text \<open>What does hold of C9: when \<^verbatim>\<open>activated_at\<close> is unset or falsy, or is a string that
  \<^verbatim>\<open>fromisoformat\<close> rejects, the result is \<^verbatim>\<open>None\<close>; and whenever it is a string, nothing
  is raised.\<close>

lemma activation_date_none:
  "dict_get (data m) ''activated_at'' JNull = v \<Longrightarrow>
   \<not> truthy v \<or> (\<exists>s. v = JStr s \<and> fromisoformat s = None) \<Longrightarrow>
     get_activation_date fromisoformat m = Inr None"
  by (auto simp: get_activation_date_def Let_def)

lemma activation_date_none_witness:
  "dict_get (data fresh_manager) ''activated_at'' JNull = JNull
   \<and> \<not> truthy JNull
   \<and> get_activation_date (\<lambda>s. None :: nat option) fresh_manager = Inr None
   \<and> dict_get [(''activated_at'', JStr ''yesterday'')] ''activated_at'' JNull = JStr ''yesterday''
   \<and> get_activation_date (\<lambda>s. None :: nat option)
        (fresh_manager\<lparr>data := [(''activated_at'', JStr ''yesterday'')]\<rparr>) = Inr None"
proof -
  have a: "dict_get (data fresh_manager) ''activated_at'' JNull = JNull"
    by (simp add: fresh_manager_def default_data_def dict_get_def)
  have b: "\<not> truthy JNull \<or> (\<exists>s. JNull = JStr s \<and> (\<lambda>s. None :: nat option) s = None)"
    by simp
  have c: "dict_get (data (fresh_manager\<lparr>data := [(''activated_at'', JStr ''yesterday'')]\<rparr>))
      ''activated_at'' JNull = JStr ''yesterday''"
    by (simp add: dict_get_def)
  have d: "\<not> truthy (JStr ''yesterday'')
      \<or> (\<exists>s. JStr ''yesterday'' = JStr s \<and> (\<lambda>s. None :: nat option) s = None)"
    by simp
  from a c activation_date_none [OF a b] activation_date_none [OF c d] show ?thesis
    by (simp add: dict_get_def)
qed

lemma activation_date_string_total:
  "dict_get (data m) ''activated_at'' JNull = JStr s \<Longrightarrow>
     get_activation_date fromisoformat m = Inr (if s = [] then None else fromisoformat s)"
  by (auto simp: get_activation_date_def Let_def split: option.splits)

section \<open>Falsy checksums\<close>

text \<open>
  C10. A persisted record whose \<^verbatim>\<open>checksum\<close> field is present but is the empty string or
  \<^verbatim>\<open>null\<close> passes \<^verbatim>\<open>_verify_checksum\<close> (\<^verbatim>\<open>if not stored_checksum: return True\<close>) and is
  returned by \<^verbatim>\<open>_load_data\<close> as stored, whatever its other fields say: emptying the
  checksum switches the integrity check off.
\<close>

theorem load_falsy_checksum:
  "files w p = Content (JDict d) \<Longrightarrow> map_of d ''checksum'' = Some c \<Longrightarrow>
   c = JStr [] \<or> c = JNull \<Longrightarrow>
     verify_checksum (JDict d) = Inr True \<and> fst (load_data p w) = Inr d"
  by (auto simp add: load_data_Content_dict dict_get_def)

theorem load_falsy_checksum_witness:
  "files (write_file ''license.json''
       (Content (JDict [(''licensed'', JBool True), (''checksum'', JStr [])])) empty_world)
       ''license.json''
     = Content (JDict [(''licensed'', JBool True), (''checksum'', JStr [])])
   \<and> map_of [(''licensed'', JBool True), (''checksum'', JStr [])] ''checksum'' = Some (JStr [])
   \<and> verify_checksum (JDict [(''licensed'', JBool True), (''checksum'', JStr [])]) = Inr True
   \<and> fst (load_data ''license.json'' (write_file ''license.json''
       (Content (JDict [(''licensed'', JBool True), (''checksum'', JStr [])])) empty_world))
     = Inr [(''licensed'', JBool True), (''checksum'', JStr [])]"
proof -
  let ?d = "[(''licensed'', JBool True), (''checksum'', JStr [])]"
  let ?w = "write_file ''license.json'' (Content (JDict ?d)) empty_world"
  have f: "files ?w ''license.json'' = Content (JDict ?d)" by simp
  have c: "map_of ?d ''checksum'' = Some (JStr [])" by simp
  have e: "JStr [] = JStr [] \<or> JStr [] = JNull" by simp
  from f c load_falsy_checksum [OF f c e] show ?thesis by blast
qed

section \<open>Further properties of the store\<close>

text \<open>The checksum is sixteen characters long whatever the record, and the record's own
  \<^verbatim>\<open>checksum\<close> field has no part in it.\<close>

lemma checksum_sixteen_characters:
  "length (calculate_checksum d) = 16
   \<and> calculate_checksum (dict_set d ''checksum'' v) = calculate_checksum d"
  by (simp add: length_calculate_checksum calculate_checksum_dict_set)

text \<open>Two values of the checksum, as Python computes them.\<close>

lemma checksum_test_vectors:
  "calculate_checksum [(''licensed'', JBool True)] = ''bb000d6a468744a3''
   \<and> calculate_checksum [(''licensed'', JBool False)] = ''4465899babcebf0a''"
  by (simp add: checksum_licensed_true checksum_licensed_false)


text \<open>The checksum does not depend on the order in which the fields were inserted: the
  serialization sorts the items by key.\<close>

lemma filter_same_key:
  "distinct (map fst zs) \<Longrightarrow> k \<in> set zs \<Longrightarrow> filter (\<lambda>x. fst k = fst x) zs = [k]"
proof (induction zs)
  case Nil
  then show ?case by simp
next
  case (Cons z zs)
  show ?case
  proof (cases "k = z")
    case True
    have "filter (\<lambda>x. fst z = fst x) zs = []"
      using Cons.prems(1) by (auto simp: filter_empty_conv image_iff)
    with True show ?thesis by simp
  next
    case False
    with Cons.prems have k: "k \<in> set zs" and d: "distinct (map fst zs)" by auto
    have "fst k \<noteq> fst z"
      using Cons.prems(1) k by (auto simp: image_iff)
    with Cons.IH [OF d k] show ?thesis by simp
  qed
qed

lemma sort_key_perm_distinct:
  assumes "mset xs = mset ys" and "distinct (map fst xs)"
  shows "sort_key fst xs = sort_key fst (ys :: (string \<times> json) list)"
proof (rule properties_for_sort_key)
  show "mset (sort_key fst ys) = mset xs"
    using assms by simp
  show "sorted (map fst (sort_key fst ys))"
    by simp
  fix k assume k: "k \<in> set (sort_key fst ys)"
  have dy: "distinct (map fst ys)"
    using assms by (metis distinct_map mset_eq_setD mset_eq_imp_distinct_iff
        mset_map distinct_count_atmost_1 image_mset_cong)
  have ds: "distinct (map fst (sort_key fst ys))"
    using dy by (simp add: distinct_map)
  have kx: "k \<in> set xs" using k assms by (metis mset_eq_setD set_sort)
  have f1: "filter (\<lambda>x. fst k = fst x) (sort_key fst ys) = [k]"
    using ds k by (rule filter_same_key)
  have f2: "filter (\<lambda>x. fst k = fst x) xs = [k]"
    using assms(2) kx by (rule filter_same_key)
  show "filter (\<lambda>x. fst k = fst x) (sort_key fst ys) = filter (\<lambda>x. fst k = fst x) xs"
    by (simp add: f1 f2)
qed

lemma calculate_checksum_order:
  assumes "mset d1 = mset d2" and "distinct (map fst d1)"
  shows "calculate_checksum d1 = calculate_checksum d2"
proof -
  let ?f = "filter (\<lambda>kv. fst kv \<noteq> ''checksum'')"
  have m: "mset (?f d1) = mset (?f d2)"
    using assms(1) by (metis mset_filter)
  have d: "distinct (map fst (?f d1))"
    using assms(2) by (simp add: distinct_map_filter)
  have "sort_key fst (?f d1) = sort_key fst (?f d2)"
    using m d by (rule sort_key_perm_distinct)
  then show ?thesis
    by (simp add: calculate_checksum_def)
qed

lemma calculate_checksum_order_witness:
  "mset [(''licensed'', JBool True), (''email'', JNull)]
     = mset [(''email'', JNull), (''licensed'', JBool True)]
   \<and> distinct (map fst [(''licensed'', JBool True), (''email'', JNull)])
   \<and> calculate_checksum [(''licensed'', JBool True), (''email'', JNull)]
     = calculate_checksum [(''email'', JNull), (''licensed'', JBool True)]"
proof -
  have m: "mset [(''licensed'', JBool True), (''email'', JNull)]
     = mset [(''email'', JNull), (''licensed'', JBool True)]"
    by simp
  have d: "distinct (map fst [(''licensed'', JBool True), (''email'', JNull)])"
    by simp
  from m d calculate_checksum_order [OF m d] show ?thesis by blast
qed

text \<open>A license file that is missing, unreadable or not JSON gives the default record; one
  whose JSON value is not an object makes \<^verbatim>\<open>data.get\<close> raise \<^verbatim>\<open>AttributeError\<close>, which
  \<^verbatim>\<open>_load_data\<close> does not catch.\<close>

lemma load_data_absent:
  "files w p = Missing \<or> files w p = Unreadable \<or> files w p = Malformed \<Longrightarrow>
     fst (load_data p w) = Inr default_data"
  by (auto simp: load_data_def)

lemma load_data_absent_witness:
  "files (write_file ''license.json'' Malformed empty_world) ''license.json'' = Malformed
   \<and> fst (load_data ''license.json'' (write_file ''license.json'' Malformed empty_world))
     = Inr default_data"
proof -
  have f: "files (write_file ''license.json'' Malformed empty_world) ''license.json'' = Malformed"
    by simp
  then have h: "files (write_file ''license.json'' Malformed empty_world) ''license.json'' = Missing
      \<or> files (write_file ''license.json'' Malformed empty_world) ''license.json'' = Unreadable
      \<or> files (write_file ''license.json'' Malformed empty_world) ''license.json'' = Malformed"
    by blast
  from f load_data_absent [OF h] show ?thesis by blast
qed

lemma load_data_not_a_dict:
  "files w p = Content j \<Longrightarrow> (\<forall>d. j \<noteq> JDict d) \<Longrightarrow> load_data p w = (Inl AttributeError, w)"
  by (cases j) (auto simp: load_data_def)

lemma load_data_not_a_dict_witness:
  "files (write_file ''license.json'' (Content (JList [])) empty_world) ''license.json''
     = Content (JList [])
   \<and> fst (load_data ''license.json'' (write_file ''license.json'' (Content (JList [])) empty_world))
     = Inl AttributeError"
proof -
  have f: "files (write_file ''license.json'' (Content (JList [])) empty_world) ''license.json''
     = Content (JList [])"
    by simp
  have n: "\<forall>d. JList [] \<noteq> JDict d" by simp
  from f load_data_not_a_dict [OF f n] show ?thesis by simp
qed

text \<open>The scenario of a fresh store: unlicensed; licensed through a Stripe payment after
  \<^verbatim>\<open>activate_with_stripe\<close>; unlicensed again after \<^verbatim>\<open>revoke_license\<close>, whatever the writes
  do.\<close>

lemma scenario_stripe_revoke:
  "is_licensed fresh_manager = JBool False
   \<and> is_licensed (fst (snd (activate_with_stripe io1 now ''cs_test_123'' None None
        (fresh_manager, empty_world)))) = JBool True
   \<and> get_license_type (fst (snd (activate_with_stripe io1 now ''cs_test_123'' None None
        (fresh_manager, empty_world)))) = JStr ''stripe_payment''
   \<and> is_licensed (fst (snd (revoke_license io2
        (snd (activate_with_stripe io1 now ''cs_test_123'' None None
          (fresh_manager, empty_world)))))) = JBool False"
  by (simp add: activate_with_stripe_eq revoke_license_eq Let_def data_save_data is_licensed_def
      get_license_type_def dict_get_def fresh_manager_def default_data_def LICENSE_TYPE_STRIPE_def)

end
